theory Spec2Isabelle
  imports Complex_Main
begin

section \<open>Python values and exceptions\<close>

text \<open>
  The conversion \<open>gmsh2VTU\<close> of \<open>utils.py\<close> is a straight-line Python function over the
  answers of a meshing kernel. Every place where Python raises is a branch of the model:
  indexing a sequence out of range (\<open>IndexError\<close>), reading a dictionary at a missing key
  (\<open>KeyError\<close>), \<open>min\<close>/\<open>max\<close> of an empty sequence (\<open>ValueError\<close>), and a failing query
  of the kernel (\<open>GmshError\<close>). Results are \<open>py_error + 'a\<close>, \<open>Inl\<close> the exception.

  Tags (node, element, entity and physical-group identifiers) are Python integers, hence
  \<open>int\<close>; positions are \<open>nat\<close>. Coordinates and normalised region values are floats in
  the source; they are modelled by \<open>real\<close>, so \<open>/\<close> is exact division and rounding
  is not part of the model.
\<close>

datatype py_error = IndexError | KeyError int | ValueError | GmshError

definition py_index :: "'a list \<Rightarrow> nat \<Rightarrow> py_error + 'a" where
  \<comment> \<open>\<open>xs[i]\<close> for a non-negative \<open>i\<close>\<close>
  "py_index xs i = (if i < length xs then Inr (xs ! i) else Inl IndexError)"

definition py_slice :: "'a list \<Rightarrow> nat \<Rightarrow> nat \<Rightarrow> 'a list" where
  \<comment> \<open>\<open>xs[a:b]\<close> for non-negative bounds: never raises, may be short\<close>
  "py_slice xs a b = take (b - a) (drop a xs)"

fun py_min :: "int list \<Rightarrow> py_error + int" where
  "py_min [] = Inl ValueError"
| "py_min (x # xs) = Inr (fold min xs x)"

fun py_max :: "int list \<Rightarrow> py_error + int" where
  "py_max [] = Inl ValueError"
| "py_max (x # xs) = Inr (fold max xs x)"

section \<open>The mesh source\<close>

text \<open>
  \<open>getElements\<close> answers with three parallel per-type sequences: the element types, the
  element tags of each type, and the flattened node tags of each type. The model holds
  the answers of the queries the conversion makes: \<open>mesh.getNodes()\<close> (node tags and the
  flat coordinate array; the third component is discarded by the source),
  \<open>mesh.getElements(2)\<close>, \<open>getPhysicalGroups(2)\<close>, and the two keyed queries
  \<open>getEntitiesForPhysicalGroup(dim, tag)\<close> and \<open>mesh.getElements(dim, entity)\<close>, which
  may fail.
\<close>

type_synonym elements = "int list \<times> int list list \<times> int list list"

record gmshModel =
  getNodes :: "int list \<times> real list"
  getElements :: elements
  getPhysicalGroups :: "(int \<times> int) list"
  getEntitiesForPhysicalGroup :: "int \<Rightarrow> int \<Rightarrow> py_error + int list"
  getElementsOf :: "int \<Rightarrow> int \<Rightarrow> py_error + elements"

section \<open>The output grid\<close>

datatype cellType = VTK_TRIANGLE | VTK_QUAD

type_synonym cell = "cellType \<times> nat list"

record vtkFloatArray =
  Name :: string
  NumberOfComponents :: nat
  Values :: "real list"

record vtkUnstructuredGrid =
  Points :: "(real \<times> real \<times> real) list"
  Cells :: "cell list"
  CellData :: "vtkFloatArray list"

section \<open>Node indexing (lines 12--19)\<close>

definition nodeTagToIndex :: "int list \<Rightarrow> (int \<rightharpoonup> nat)" where
  \<comment> \<open>\<open>{nodeTag: idx for idx, nodeTag in enumerate(nodeTags)}\<close>: a later duplicate overwrites\<close>
  "nodeTagToIndex nodeTags =
     fold (\<lambda>(idx, nodeTag) d. d(nodeTag \<mapsto> idx)) (enumerate 0 nodeTags) Map.empty"

fun orderedElemNodeTags :: "(int \<rightharpoonup> nat) \<Rightarrow> int list \<Rightarrow> py_error + nat list" where
  \<comment> \<open>\<open>[nodeTagToIndex[nodeTag] for nodeTag in elemNodeTags]\<close>\<close>
  "orderedElemNodeTags d [] = Inr []"
| "orderedElemNodeTags d (nodeTag # rest) =
     (case d nodeTag of
        None \<Rightarrow> Inl (KeyError nodeTag)
      | Some idx \<Rightarrow>
          (case orderedElemNodeTags d rest of
             Inl e \<Rightarrow> Inl e
           | Inr idxs \<Rightarrow> Inr (idx # idxs)))"

definition point_at :: "real list \<Rightarrow> nat \<Rightarrow> py_error + (real \<times> real \<times> real)" where
  \<comment> \<open>\<open>coords[3 * i], coords[3 * i + 1], coords[3 * i + 2]\<close>\<close>
  "point_at coords i =
     (case py_index coords (3 * i) of
        Inl e \<Rightarrow> Inl e
      | Inr x \<Rightarrow>
          (case py_index coords (3 * i + 1) of
             Inl e \<Rightarrow> Inl e
           | Inr y \<Rightarrow>
               (case py_index coords (3 * i + 2) of
                  Inl e \<Rightarrow> Inl e
                | Inr z \<Rightarrow> Inr (x, y, z))))"

fun insert_points ::
  "real list \<Rightarrow> nat list \<Rightarrow> (real \<times> real \<times> real) list \<Rightarrow> py_error + (real \<times> real \<times> real) list" where
  \<comment> \<open>the loop of \<open>InsertNextPoint\<close> over the given positions\<close>
  "insert_points coords [] pts = Inr pts"
| "insert_points coords (i # rest) pts =
     (case point_at coords i of
        Inl e \<Rightarrow> Inl e
      | Inr p \<Rightarrow> insert_points coords rest (pts @ [p]))"

definition vtk_points :: "int list \<Rightarrow> real list \<Rightarrow> py_error + (real \<times> real \<times> real) list" where
  "vtk_points nodeTags coords = insert_points coords [0..<length nodeTags] []"

section \<open>Region tags of the physical groups (lines 31--39)\<close>

definition assign_elements :: "int \<Rightarrow> int list \<Rightarrow> (int \<rightharpoonup> int) \<Rightarrow> (int \<rightharpoonup> int)" where
  \<comment> \<open>\<open>for elemTag in elementTags[0]: physicalGroupMap[elemTag] = tag\<close>\<close>
  "assign_elements tag elementTags0 d = fold (\<lambda>elemTag d'. d'(elemTag \<mapsto> tag)) elementTags0 d"

fun entity_loop ::
  "gmshModel \<Rightarrow> int \<Rightarrow> int \<Rightarrow> int list \<Rightarrow> (int \<rightharpoonup> int) \<Rightarrow> py_error + (int \<rightharpoonup> int)" where
  \<comment> \<open>\<open>for elemTag in elementaryTags\<close>: only block 0 of the entity's elements is read\<close>
  "entity_loop m dm tag [] d = Inr d"
| "entity_loop m dm tag (ent # rest) d =
     (case getElementsOf m dm ent of
        Inl e \<Rightarrow> Inl e
      | Inr (_, elementTags, _) \<Rightarrow>
          (case py_index elementTags 0 of
             Inl e \<Rightarrow> Inl e
           | Inr elementTags0 \<Rightarrow> entity_loop m dm tag rest (assign_elements tag elementTags0 d)))"

fun group_loop ::
  "gmshModel \<Rightarrow> (int \<times> int) list \<Rightarrow> (int \<rightharpoonup> int) \<Rightarrow> py_error + (int \<rightharpoonup> int)" where
  \<comment> \<open>\<open>for dim, tag in physicalGroups\<close> (\<open>dm\<close> is the source's \<open>dim\<close>)\<close>
  "group_loop m [] d = Inr d"
| "group_loop m ((dm, tag) # rest) d =
     (case getEntitiesForPhysicalGroup m dm tag of
        Inl e \<Rightarrow> Inl e
      | Inr elementaryTags \<Rightarrow>
          (case entity_loop m dm tag elementaryTags d of
             Inl e \<Rightarrow> Inl e
           | Inr d' \<Rightarrow> group_loop m rest d'))"

definition physicalGroupMap :: "gmshModel \<Rightarrow> py_error + (int \<rightharpoonup> int)" where
  "physicalGroupMap m = group_loop m (getPhysicalGroups m) Map.empty"

section \<open>Cells and raw region values (lines 41--60)\<close>

fun set_ids :: "nat list \<Rightarrow> nat list \<Rightarrow> nat list \<Rightarrow> py_error + nat list" where
  \<comment> \<open>\<open>for j in range(k): GetPointIds().SetId(j, int(nodes[j]))\<close>\<close>
  "set_ids nodes [] ids = Inr ids"
| "set_ids nodes (j # rest) ids =
     (case py_index nodes j of
        Inl e \<Rightarrow> Inl e
      | Inr node_id \<Rightarrow> set_ids nodes rest (ids[j := node_id]))"

definition new_cell :: "cellType \<Rightarrow> nat \<Rightarrow> nat list \<Rightarrow> nat \<Rightarrow> py_error + cell" where
  \<comment> \<open>a fresh \<open>vtkQuad\<close> (\<open>k = 4\<close>) or \<open>vtkTriangle\<close> (\<open>k = 3\<close>) filled from
      \<open>orderedElemNodeTags[k * i:k * (i + 1)]\<close>; a fresh cell holds \<open>k\<close> point ids\<close>
  "new_cell ct k ordered i =
     (case set_ids (py_slice ordered (k * i) (k * (i + 1))) [0..<k] (replicate k 0) of
        Inl e \<Rightarrow> Inl e
      | Inr ids \<Rightarrow> Inr (ct, ids))"

definition insert_cell ::
  "int \<Rightarrow> nat list \<Rightarrow> nat \<Rightarrow> cell list \<Rightarrow> py_error + cell list" where
  \<comment> \<open>the \<open>if elemType == 3 ... elif elemType == 2 ...\<close> of the loop body: no \<open>else\<close>\<close>
  "insert_cell elemType ordered i cells =
     (if elemType = 3 then
        (case new_cell VTK_QUAD 4 ordered i of
           Inl e \<Rightarrow> Inl e
         | Inr c \<Rightarrow> Inr (cells @ [c]))
      else if elemType = 2 then
        (case new_cell VTK_TRIANGLE 3 ordered i of
           Inl e \<Rightarrow> Inl e
         | Inr c \<Rightarrow> Inr (cells @ [c]))
      else Inr cells)"

definition region_of :: "(int \<rightharpoonup> int) \<Rightarrow> int \<Rightarrow> int" where
  \<comment> \<open>\<open>physicalGroupMap.get(elemTag, -1)\<close>\<close>
  "region_of pgm elemTag = (case pgm elemTag of None \<Rightarrow> - 1 | Some tag \<Rightarrow> tag)"

fun cell_loop ::
  "int \<Rightarrow> int list \<Rightarrow> nat list \<Rightarrow> (int \<rightharpoonup> int) \<Rightarrow> nat list \<Rightarrow> cell list \<times> int list
     \<Rightarrow> py_error + (cell list \<times> int list)" where
  \<comment> \<open>\<open>for i in range(len(elemTags))\<close>, on the state (cells of the grid, \<open>regionValues\<close>);
      every \<open>i\<close> it is run on is below \<open>len(elemTags)\<close>\<close>
  "cell_loop elemType elemTags ordered pgm [] st = Inr st"
| "cell_loop elemType elemTags ordered pgm (i # rest) st =
     (case insert_cell elemType ordered i (fst st) of
        Inl e \<Rightarrow> Inl e
      | Inr cells \<Rightarrow>
          cell_loop elemType elemTags ordered pgm rest
            (cells, snd st @ [region_of pgm (elemTags ! i)]))"

section \<open>Normalisation and the region array (lines 25--28, 62--74)\<close>

definition normalizedRegions :: "int list \<Rightarrow> py_error + real list" where
  "normalizedRegions regionValues =
     (case py_min regionValues of
        Inl e \<Rightarrow> Inl e
      | Inr min_region \<Rightarrow>
          (case py_max regionValues of
             Inl e \<Rightarrow> Inl e
           | Inr max_region \<Rightarrow>
               (if min_region = max_region then Inr (replicate (length regionValues) 1)
                else Inr (map (\<lambda>region. 1 - real_of_int (region - min_region)
                                              / real_of_int (max_region - min_region))
                            regionValues))))"

definition regionArray :: "nat \<Rightarrow> vtkFloatArray" where
  \<comment> \<open>\<open>SetName\<close>, \<open>SetNumberOfComponents(1)\<close>, \<open>SetNumberOfTuples(n)\<close>: \<open>n\<close> slots, whose
      content (not initialised by the library) is taken as 0\<close>
  "regionArray n = \<lparr>Name = ''Region'', NumberOfComponents = 1, Values = replicate n 0\<rparr>"

definition SetValue :: "nat \<Rightarrow> real \<Rightarrow> vtkFloatArray \<Rightarrow> vtkFloatArray" where
  "SetValue i v arr = arr\<lparr>Values := (Values arr)[i := v]\<rparr>"

definition set_values :: "real list \<Rightarrow> vtkFloatArray \<Rightarrow> vtkFloatArray" where
  \<comment> \<open>\<open>for i, normalizedRegion in enumerate(normalizedRegions): regionArray.SetValue(i, ...)\<close>\<close>
  "set_values normalized arr = fold (\<lambda>(i, v) a. SetValue i v a) (enumerate 0 normalized) arr"

section \<open>The conversion\<close>

definition py_then :: "py_error + 'a \<Rightarrow> ('a \<Rightarrow> py_error + 'b) \<Rightarrow> py_error + 'b" where
  \<comment> \<open>statement sequencing: an exception of the first statement ends the function\<close>
  "py_then r f = (case r of Inl e \<Rightarrow> Inl e | Inr x \<Rightarrow> f x)"

definition gmsh2VTU_loop ::
  "gmshModel \<Rightarrow> py_error + (vtkUnstructuredGrid \<times> vtkFloatArray \<times> int list)" where
  \<comment> \<open>lines 4--60: \<open>unstructuredGrid\<close>, \<open>regionArray\<close> and \<open>regionValues\<close> when the loop
      over the elements has ended (the \<open>print\<close> of line 10 is left out)\<close>
  "gmsh2VTU_loop m =
     (let (nodeTags, coords) = getNodes m;
          (elementTypes, elementTags, elementNodeTags) = getElements m
      in py_then (py_index elementTypes 0) (\<lambda>elemType.
         py_then (py_index elementTags 0) (\<lambda>elemTags.
         py_then (py_index elementNodeTags 0) (\<lambda>elemNodeTags.
         py_then (orderedElemNodeTags (nodeTagToIndex nodeTags) elemNodeTags) (\<lambda>ordered.
         py_then (vtk_points nodeTags coords) (\<lambda>pts.
         py_then (physicalGroupMap m) (\<lambda>pgm.
         py_then (cell_loop elemType elemTags ordered pgm [0..<length elemTags] ([], []))
           (\<lambda>(cells, regionValues).
              Inr (\<lparr>Points = pts, Cells = cells, CellData = []\<rparr>,
                   regionArray (length elemTags), regionValues)))))))))"

definition gmsh2VTU :: "gmshModel \<Rightarrow> py_error + vtkUnstructuredGrid" where
  \<comment> \<open>lines 62--76 after the loop: normalise, fill the array, attach it, return the grid\<close>
  "gmsh2VTU m =
     py_then (gmsh2VTU_loop m) (\<lambda>(unstructuredGrid, arr, regionValues).
     py_then (normalizedRegions regionValues) (\<lambda>normalized.
       Inr (unstructuredGrid\<lparr>CellData :=
              CellData unstructuredGrid @ [set_values normalized arr]\<rparr>)))"

section \<open>Elements of a physical group\<close>

text \<open>
  Two relations between a physical group and element tags, used to state ownership; the
  conversion itself does not call them.

  \<open>group_elements\<close> is the relation of the mesh source: the elements owned by the entities
  of the group, that is, the element tags of every per-type block that
  \<open>mesh.getElements(dim, entity)\<close> answers with.

  \<open>group_block0_elements\<close> is the part of it that the traversal of lines 33--39 visits: for
  each entity of the group, \<open>elementTags[0]\<close> alone (line 38).
\<close>

definition entity_elements :: "gmshModel \<Rightarrow> int \<Rightarrow> int \<Rightarrow> int list" where
  "entity_elements m dm ent =
     (case getElementsOf m dm ent of
        Inl e \<Rightarrow> []
      | Inr (_, elementTags, _) \<Rightarrow> concat elementTags)"

definition group_elements :: "gmshModel \<Rightarrow> int \<times> int \<Rightarrow> int list" where
  "group_elements m g =
     (case getEntitiesForPhysicalGroup m (fst g) (snd g) of
        Inl e \<Rightarrow> []
      | Inr elementaryTags \<Rightarrow> concat (map (entity_elements m (fst g)) elementaryTags))"

definition entity_block0_elements :: "gmshModel \<Rightarrow> int \<Rightarrow> int \<Rightarrow> int list" where
  "entity_block0_elements m dm ent =
     (case getElementsOf m dm ent of
        Inl e \<Rightarrow> []
      | Inr (_, elementTags, _) \<Rightarrow> (case elementTags of [] \<Rightarrow> [] | elementTags0 # _ \<Rightarrow> elementTags0))"

definition group_block0_elements :: "gmshModel \<Rightarrow> int \<times> int \<Rightarrow> int list" where
  "group_block0_elements m g =
     (case getEntitiesForPhysicalGroup m (fst g) (snd g) of
        Inl e \<Rightarrow> []
      | Inr elementaryTags \<Rightarrow> concat (map (entity_block0_elements m (fst g)) elementaryTags))"

section \<open>Concrete meshes\<close>

text \<open>
  Small meshes on which the statements below are evaluated. Each gives the answers of the
  kernel's queries for one mesh; a query about an entity or group the mesh does not have
  fails.
\<close>

text \<open>One second-order triangle (gmsh element type 9, six nodes), in physical group 1.\<close>

definition mesh_tri6 :: gmshModel where
  "mesh_tri6 =
     \<lparr>getNodes = ([1, 2, 3, 4, 5, 6],
                  [0, 0, 0, 1, 0, 0, 0, 1, 0, 1 / 2, 0, 0, 1 / 2, 1 / 2, 0, 0, 1 / 2, 0]),
      getElements = ([9], [[1]], [[1, 2, 3, 4, 5, 6]]),
      getPhysicalGroups = [(2, 1)],
      getEntitiesForPhysicalGroup = (\<lambda>d t. if d = 2 \<and> t = 1 then Inr [1] else Inl GmshError),
      getElementsOf =
        (\<lambda>d t. if d = 2 \<and> t = 1 then Inr ([9], [[1]], [[1, 2, 3, 4, 5, 6]])
               else Inl GmshError)\<rparr>"

text \<open>Two second-order triangles (type 9) over nine nodes, no physical group.\<close>

definition mesh_two_tri6 :: gmshModel where
  "mesh_two_tri6 =
     \<lparr>getNodes = ([1, 2, 3, 4, 5, 6, 7, 8, 9],
                  [0, 0, 0, 1, 0, 0, 1, 1, 0, 0, 1, 0, 1 / 2, 0, 0, 1, 1 / 2, 0,
                   1 / 2, 1, 0, 0, 1 / 2, 0, 1 / 2, 1 / 2, 0]),
      getElements = ([9], [[1, 2]], [[1, 2, 3, 5, 6, 9, 1, 3, 4, 9, 7, 8]]),
      getPhysicalGroups = [],
      getEntitiesForPhysicalGroup = (\<lambda>d t. Inl GmshError),
      getElementsOf = (\<lambda>d t. Inl GmshError)\<rparr>"


text \<open>The mesh of the example scenario: the quadrilateral 10, 11, 12, 13 (element 1, entity 1,
  physical group 5) and the triangle 10, 11, 14 (element 2, entity 2, physical group 2), over
  the five nodes 10 to 14. \<open>getElements(2)\<close> lists the triangle block (type 2) before the
  quadrilateral block (type 3).\<close>

definition mesh_quad_tri :: gmshModel where
  "mesh_quad_tri =
     \<lparr>getNodes = ([10, 11, 12, 13, 14], [0, 0, 0, 1, 0, 0, 1, 1, 0, 0, 1, 0, 1 / 2, - 1, 0]),
      getElements = ([2, 3], [[2], [1]], [[10, 11, 14], [10, 11, 12, 13]]),
      getPhysicalGroups = [(2, 5), (2, 2)],
      getEntitiesForPhysicalGroup =
        (\<lambda>d t. if d = 2 \<and> t = 5 then Inr [1] else if d = 2 \<and> t = 2 then Inr [2]
               else Inl GmshError),
      getElementsOf =
        (\<lambda>d t. if d = 2 \<and> t = 1 then Inr ([3], [[1]], [[10, 11, 12, 13]])
               else if d = 2 \<and> t = 2 then Inr ([2], [[2]], [[10, 11, 14]])
               else Inl GmshError)\<rparr>"

text \<open>The same mesh with the quadrilateral block listed first.\<close>

definition mesh_quad_tri_quad_first :: gmshModel where
  "mesh_quad_tri_quad_first =
     mesh_quad_tri\<lparr>getElements := ([3, 2], [[1], [2]], [[10, 11, 12, 13], [10, 11, 14]])\<rparr>"

text \<open>Two triangles, the second of which refers to node 9, which is not a node of the mesh.\<close>

definition mesh_missing_node :: gmshModel where
  "mesh_missing_node =
     \<lparr>getNodes = ([1, 2, 3], [0, 0, 0, 1, 0, 0, 0, 1, 0]),
      getElements = ([2], [[1, 2]], [[1, 2, 3, 2, 9, 3]]),
      getPhysicalGroups = [],
      getEntitiesForPhysicalGroup = (\<lambda>d t. Inl GmshError),
      getElementsOf = (\<lambda>d t. Inl GmshError)\<rparr>"

text \<open>Two quadrilaterals (type 3), both in physical group 4.\<close>

definition mesh_one_group :: gmshModel where
  "mesh_one_group =
     \<lparr>getNodes = ([1, 2, 3, 4, 5, 6], [0, 0, 0, 1, 0, 0, 2, 0, 0, 0, 1, 0, 1, 1, 0, 2, 1, 0]),
      getElements = ([3], [[1, 2]], [[1, 2, 5, 4, 2, 3, 6, 5]]),
      getPhysicalGroups = [(2, 4)],
      getEntitiesForPhysicalGroup = (\<lambda>d t. if d = 2 \<and> t = 4 then Inr [1] else Inl GmshError),
      getElementsOf =
        (\<lambda>d t. if d = 2 \<and> t = 1 then Inr ([3], [[1, 2]], [[1, 2, 5, 4, 2, 3, 6, 5]])
               else Inl GmshError)\<rparr>"

text \<open>One quadrilateral whose entity belongs to two physical groups, 5 and then 2.\<close>

definition mesh_overlap :: gmshModel where
  "mesh_overlap =
     \<lparr>getNodes = ([1, 2, 3, 4], [0, 0, 0, 1, 0, 0, 1, 1, 0, 0, 1, 0]),
      getElements = ([3], [[7]], [[1, 2, 3, 4]]),
      getPhysicalGroups = [(2, 5), (2, 2)],
      getEntitiesForPhysicalGroup =
        (\<lambda>d t. if d = 2 \<and> (t = 5 \<or> t = 2) then Inr [1] else Inl GmshError),
      getElementsOf =
        (\<lambda>d t. if d = 2 \<and> t = 1 then Inr ([3], [[7]], [[1, 2, 3, 4]]) else Inl GmshError)\<rparr>"

text \<open>One triangle over node tags that are neither sorted nor contiguous.\<close>

definition mesh_sparse_ids :: gmshModel where
  "mesh_sparse_ids =
     \<lparr>getNodes = ([30, 10, 20], [0, 0, 0, 1, 0, 0, 0, 1, 0]),
      getElements = ([2], [[1]], [[10, 20, 30]]),
      getPhysicalGroups = [],
      getEntitiesForPhysicalGroup = (\<lambda>d t. Inl GmshError),
      getElementsOf = (\<lambda>d t. Inl GmshError)\<rparr>"

text \<open>Two triangles and no physical group.\<close>

definition mesh_no_groups :: gmshModel where
  "mesh_no_groups =
     \<lparr>getNodes = ([1, 2, 3, 4], [0, 0, 0, 1, 0, 0, 1, 1, 0, 0, 1, 0]),
      getElements = ([2], [[1, 2]], [[1, 2, 3, 1, 3, 4]]),
      getPhysicalGroups = [],
      getEntitiesForPhysicalGroup = (\<lambda>d t. Inl GmshError),
      getElementsOf = (\<lambda>d t. Inl GmshError)\<rparr>"

text \<open>A mesh whose only element block, of type 2, holds no element.\<close>

definition mesh_empty_block :: gmshModel where
  "mesh_empty_block =
     \<lparr>getNodes = ([1, 2, 3], [0, 0, 0, 1, 0, 0, 0, 1, 0]),
      getElements = ([2], [[]], [[]]),
      getPhysicalGroups = [],
      getEntitiesForPhysicalGroup = (\<lambda>d t. Inl GmshError),
      getElementsOf = (\<lambda>d t. Inl GmshError)\<rparr>"

text \<open>A triangle and a quadrilateral over the nodes 1 to 3; the quadrilateral, in the second
  block, refers to node 99, which is not a node of the mesh.\<close>

definition mesh_missing_node_later_block :: gmshModel where
  "mesh_missing_node_later_block =
     \<lparr>getNodes = ([1, 2, 3], [0, 0, 0, 1, 0, 0, 0, 1, 0]),
      getElements = ([2, 3], [[1], [2]], [[1, 2, 3], [1, 2, 3, 99]]),
      getPhysicalGroups = [],
      getEntitiesForPhysicalGroup = (\<lambda>d t. Inl GmshError),
      getElementsOf = (\<lambda>d t. Inl GmshError)\<rparr>"

text \<open>One entity holding a triangle (element 2) and a quadrilateral (element 1), listed in
  that order, and belonging to the two physical groups 5 and then 2.\<close>

definition mesh_overlap_mixed :: gmshModel where
  "mesh_overlap_mixed =
     \<lparr>getNodes = ([10, 11, 12, 13, 14], [0, 0, 0, 1, 0, 0, 1, 1, 0, 0, 1, 0, 1 / 2, - 1, 0]),
      getElements = ([2, 3], [[2], [1]], [[10, 11, 14], [10, 11, 12, 13]]),
      getPhysicalGroups = [(2, 5), (2, 2)],
      getEntitiesForPhysicalGroup =
        (\<lambda>d t. if d = 2 \<and> (t = 5 \<or> t = 2) then Inr [1] else Inl GmshError),
      getElementsOf =
        (\<lambda>d t. if d = 2 \<and> t = 1
               then Inr ([2, 3], [[2], [1]], [[10, 11, 14], [10, 11, 12, 13]])
               else Inl GmshError)\<rparr>"

section \<open>Auxiliary facts\<close>

subsection \<open>Sequencing and indexing\<close>

lemma py_then_Inr_iff:
  "py_then r f = Inr y \<longleftrightarrow> (\<exists>x. r = Inr x \<and> f x = Inr y)"
  by (cases r) (simp_all add: py_then_def)

lemma py_index_0: "py_index xs 0 = Inr x \<longleftrightarrow> (\<exists>rest. xs = x # rest)"
  by (cases xs) (auto simp: py_index_def)

lemma map_nth_upt: "map (\<lambda>i. f (xs ! i)) [0..<length xs] = map f xs"
  by (rule nth_equalityI) simp_all

subsection \<open>The node index\<close>

lemma fold_index_dom:
  "dom (fold (\<lambda>(idx, nodeTag) d. d(nodeTag \<mapsto> idx)) (enumerate k xs) d) = dom d \<union> set xs"
  by (induction xs arbitrary: k d) auto

lemma fold_index_notin:
  "t \<notin> set xs \<Longrightarrow> fold (\<lambda>(idx, nodeTag) d. d(nodeTag \<mapsto> idx)) (enumerate k xs) d t = d t"
  by (induction xs arbitrary: k d) auto

lemma fold_index_nth:
  "distinct xs \<Longrightarrow> i < length xs \<Longrightarrow>
   fold (\<lambda>(idx, nodeTag) d. d(nodeTag \<mapsto> idx)) (enumerate k xs) d (xs ! i) = Some (k + i)"
proof (induction xs arbitrary: k d i)
  case Nil
  then show ?case by simp
next
  case (Cons x xs)
  show ?case
  proof (cases i)
    case 0
    from Cons.prems have "x \<notin> set xs" by simp
    then have "fold (\<lambda>(idx, nodeTag) d. d(nodeTag \<mapsto> idx)) (enumerate (Suc k) xs) (d(x \<mapsto> k)) x
        = (d(x \<mapsto> k)) x"
      by (rule fold_index_notin)
    also have "\<dots> = Some k" by simp
    finally show ?thesis
      by (simp only: 0 enumerate_simps fold_simps o_apply nth_Cons_0 prod.case add_0_right)
  next
    case (Suc j)
    with Cons.prems Cons.IH [of j "Suc k" "d(x \<mapsto> k)"] show ?thesis by simp
  qed
qed

lemma dom_nodeTagToIndex: "dom (nodeTagToIndex nodeTags) = set nodeTags"
  by (simp add: nodeTagToIndex_def fold_index_dom)

lemma nodeTagToIndex_nth:
  "distinct nodeTags \<Longrightarrow> i < length nodeTags \<Longrightarrow> nodeTagToIndex nodeTags (nodeTags ! i) = Some i"
  using fold_index_nth [of nodeTags i 0 Map.empty] by (simp add: nodeTagToIndex_def)

lemma orderedElemNodeTags_missing:
  "\<exists>t\<in>set ts. d t = None \<Longrightarrow> \<exists>t. t \<in> set ts \<and> d t = None \<and> orderedElemNodeTags d ts = Inl (KeyError t)"
proof (induction ts)
  case Nil
  then show ?case by simp
next
  case (Cons a ts)
  show ?case
  proof (cases "d a")
    case None
    then show ?thesis by auto
  next
    case (Some idx)
    with Cons.prems have "\<exists>t\<in>set ts. d t = None" by auto
    from Cons.IH [OF this] obtain t where "t \<in> set ts" "d t = None"
      "orderedElemNodeTags d ts = Inl (KeyError t)" by blast
    with Some show ?thesis by auto
  qed
qed

lemma orderedElemNodeTags_Inr:
  "orderedElemNodeTags d ts = Inr idxs \<Longrightarrow> map d ts = map Some idxs"
  by (induction ts arbitrary: idxs) (auto split: option.splits sum.splits)

subsection \<open>The point array\<close>

lemma point_at_Inr:
  "point_at coords i = Inr p \<longleftrightarrow>
     3 * i + 2 < length coords \<and> p = (coords ! (3 * i), coords ! (3 * i + 1), coords ! (3 * i + 2))"
  by (auto simp: point_at_def py_index_def)

lemma insert_points_Inr:
  "insert_points coords is pts = Inr r \<Longrightarrow>
   r = pts @ map (\<lambda>i. (coords ! (3 * i), coords ! (3 * i + 1), coords ! (3 * i + 2))) is"
proof (induction "is" arbitrary: pts)
  case Nil
  then show ?case by simp
next
  case (Cons i rest)
  from Cons.prems obtain p where p: "point_at coords i = Inr p"
    and r: "insert_points coords rest (pts @ [p]) = Inr r"
    by (auto split: sum.splits)
  from Cons.IH [OF r] p show ?case by (simp add: point_at_Inr)
qed

lemma insert_points_total:
  "\<forall>i\<in>set is. 3 * i + 2 < length coords \<Longrightarrow> \<exists>r. insert_points coords is pts = Inr r"
proof (induction "is" arbitrary: pts)
  case Nil
  then show ?case by simp
next
  case (Cons i rest)
  then have "point_at coords i =
     Inr (coords ! (3 * i), coords ! (3 * i + 1), coords ! (3 * i + 2))"
    by (simp add: point_at_Inr)
  with Cons show ?case by simp
qed

lemma vtk_points_Inr:
  assumes "vtk_points nodeTags coords = Inr pts"
  shows "length pts = length nodeTags"
    and "i < length nodeTags \<Longrightarrow> pts ! i = (coords ! (3 * i), coords ! (3 * i + 1), coords ! (3 * i + 2))"
  using insert_points_Inr [OF assms [unfolded vtk_points_def]] by simp_all

lemma vtk_points_total:
  "3 * length nodeTags \<le> length coords \<Longrightarrow> \<exists>pts. vtk_points nodeTags coords = Inr pts"
  unfolding vtk_points_def by (rule insert_points_total) auto

subsection \<open>The physical-group map\<close>

lemma entity_block0_subset:
  "set (entity_block0_elements m dm ent) \<subseteq> set (entity_elements m dm ent)"
proof (cases "getElementsOf m dm ent")
  case (Inl e)
  then show ?thesis by (simp add: entity_block0_elements_def entity_elements_def)
next
  case (Inr r)
  obtain a ets b where r: "r = (a, ets, b)" by (cases r)
  show ?thesis
    by (cases ets) (simp_all add: entity_block0_elements_def entity_elements_def Inr r)
qed

lemma group_block0_subset:
  "set (group_block0_elements m g) \<subseteq> set (group_elements m g)"
proof (cases "getEntitiesForPhysicalGroup m (fst g) (snd g)")
  case (Inl e)
  then show ?thesis by (simp add: group_block0_elements_def group_elements_def)
next
  case (Inr ents)
  then show ?thesis
    using entity_block0_subset [of m "fst g"]
    by (auto simp: group_block0_elements_def group_elements_def)
qed

lemma assign_elements_apply:
  "assign_elements tag es d E = (if E \<in> set es then Some tag else d E)"
  unfolding assign_elements_def by (induction es arbitrary: d) auto

lemma entity_loop_apply:
  "entity_loop m dm tag ents d = Inr d' \<Longrightarrow>
   d' E = (if E \<in> set (concat (map (entity_block0_elements m dm) ents)) then Some tag else d E)"
proof (induction ents arbitrary: d)
  case Nil
  then show ?case by simp
next
  case (Cons ent rest)
  from Cons.prems obtain a ets b es where
    q: "getElementsOf m dm ent = Inr (a, ets, b)" and
    i: "py_index ets 0 = Inr es" and
    r: "entity_loop m dm tag rest (assign_elements tag es d) = Inr d'"
    by (auto split: sum.splits prod.splits)
  from i have "entity_block0_elements m dm ent = es"
    by (cases ets) (simp_all add: entity_block0_elements_def q py_index_def)
  with Cons.IH [OF r] show ?case by (simp add: assign_elements_apply)
qed

lemma group_loop_step:
  assumes "group_loop m (g # gs) d = Inr d'"
  shows "\<exists>d1. group_loop m gs d1 = Inr d' \<and>
              (\<forall>E. d1 E = (if E \<in> set (group_block0_elements m g) then Some (snd g) else d E))"
proof -
  obtain dm tag where g: "g = (dm, tag)" by (cases g)
  from assms obtain ents d1 where
    q: "getEntitiesForPhysicalGroup m dm tag = Inr ents" and
    e: "entity_loop m dm tag ents d = Inr d1" and
    r: "group_loop m gs d1 = Inr d'"
    by (auto simp: g split: sum.splits)
  have "d1 E = (if E \<in> set (group_block0_elements m g) then Some (snd g) else d E)" for E
    using entity_loop_apply [OF e, of E] by (simp add: group_block0_elements_def g q)
  with r show ?thesis by blast
qed

lemma group_loop_not_owned:
  "group_loop m gs d = Inr d' \<Longrightarrow> \<forall>g\<in>set gs. E \<notin> set (group_block0_elements m g) \<Longrightarrow> d' E = d E"
proof (induction gs arbitrary: d)
  case Nil
  then show ?case by simp
next
  case (Cons g gs)
  from group_loop_step [OF Cons.prems(1)] obtain d1 where
    r: "group_loop m gs d1 = Inr d'" and
    s: "d1 E = (if E \<in> set (group_block0_elements m g) then Some (snd g) else d E)"
    by blast
  from Cons.IH [OF r] Cons.prems(2) s show ?case by simp
qed

lemma group_loop_last_owner:
  "group_loop m (pre @ g # post) d = Inr d' \<Longrightarrow> E \<in> set (group_block0_elements m g) \<Longrightarrow>
   \<forall>g'\<in>set post. E \<notin> set (group_block0_elements m g') \<Longrightarrow> d' E = Some (snd g)"
proof (induction pre arbitrary: d)
  case Nil
  from group_loop_step [of m g post d d'] Nil.prems(1) obtain d1 where
    r: "group_loop m post d1 = Inr d'" and
    s: "d1 E = (if E \<in> set (group_block0_elements m g) then Some (snd g) else d E)"
    by auto
  from group_loop_not_owned [OF r Nil.prems(3)] s Nil.prems(2) show ?case by simp
next
  case (Cons p pre)
  from group_loop_step [of m p "pre @ g # post" d d'] Cons.prems(1) obtain d1 where
    r: "group_loop m (pre @ g # post) d1 = Inr d'" by auto
  from Cons.IH [OF r Cons.prems(2) Cons.prems(3)] show ?case .
qed

subsection \<open>The loop over the elements\<close>

lemma insert_cell_length:
  "insert_cell elemType ordered i cells = Inr cells' \<Longrightarrow>
   cells' = cells @ drop (length cells) cells' \<and>
   length cells' = (if elemType = 3 \<or> elemType = 2 then Suc (length cells) else length cells)"
  by (auto simp: insert_cell_def split: if_splits sum.splits)

lemma cell_loop_regions:
  "cell_loop elemType elemTags ordered pgm is st = Inr st' \<Longrightarrow>
   snd st' = snd st @ map (\<lambda>i. region_of pgm (elemTags ! i)) is"
proof (induction "is" arbitrary: st)
  case Nil
  then show ?case by simp
next
  case (Cons i rest)
  then show ?case by (fastforce split: sum.splits)
qed

lemma cell_loop_cells:
  "cell_loop elemType elemTags ordered pgm is st = Inr st' \<Longrightarrow>
   length (fst st') = (if elemType = 3 \<or> elemType = 2 then length (fst st) + length is
                       else length (fst st))"
proof (induction "is" arbitrary: st)
  case Nil
  then show ?case by simp
next
  case (Cons i rest)
  from Cons.prems obtain cells where
    c: "insert_cell elemType ordered i (fst st) = Inr cells" and
    r: "cell_loop elemType elemTags ordered pgm rest
          (cells, snd st @ [region_of pgm (elemTags ! i)]) = Inr st'"
    by (auto split: sum.splits)
  from Cons.IH [OF r] insert_cell_length [OF c] show ?case by (simp split: if_splits)
qed

lemma cell_loop_regionValues:
  assumes "cell_loop elemType elemTags ordered pgm [0..<length elemTags] ([], []) = Inr (cells, rv)"
  shows "rv = map (region_of pgm) elemTags"
  using cell_loop_regions [OF assms] by (simp add: map_nth_upt)

lemma cell_loop_length_cells:
  assumes "cell_loop elemType elemTags ordered pgm [0..<length elemTags] ([], []) = Inr (cells, rv)"
  shows "length cells = (if elemType = 3 \<or> elemType = 2 then length elemTags else 0)"
  using cell_loop_cells [OF assms] by simp

subsection \<open>Minimum, maximum and the region array\<close>

lemma py_min_Min: "xs \<noteq> [] \<Longrightarrow> py_min xs = Inr (Min (set xs))"
proof (cases xs)
  case (Cons a list)
  have "fold min list a = Min (set (a # list))" by (rule Min.set_eq_fold [symmetric])
  with Cons show ?thesis by simp
qed simp

lemma py_max_Max: "xs \<noteq> [] \<Longrightarrow> py_max xs = Inr (Max (set xs))"
proof (cases xs)
  case (Cons a list)
  have "fold max list a = Max (set (a # list))" by (rule Max.set_eq_fold [symmetric])
  with Cons show ?thesis by simp
qed simp

lemma normalizedRegions_nonempty:
  "rv \<noteq> [] \<Longrightarrow> normalizedRegions rv =
     Inr (if Min (set rv) = Max (set rv) then replicate (length rv) 1
          else map (\<lambda>r. 1 - real_of_int (r - Min (set rv)) / real_of_int (Max (set rv) - Min (set rv))) rv)"
  by (simp add: normalizedRegions_def py_min_Min py_max_Max)

lemma normalizedRegions_empty: "normalizedRegions [] = Inl ValueError"
  by (simp add: normalizedRegions_def)

lemma fold_SetValue_Values:
  "k + length vs \<le> length (Values arr) \<Longrightarrow>
   Values (fold (\<lambda>(i, v) a. SetValue i v a) (enumerate k vs) arr) =
     take k (Values arr) @ vs @ drop (k + length vs) (Values arr)"
proof (induction vs arbitrary: k arr)
  case Nil
  then show ?case by simp
next
  case (Cons v vs)
  have "Values (fold (\<lambda>(i, v) a. SetValue i v a) (enumerate (Suc k) vs) (SetValue k v arr)) =
     take (Suc k) (Values (SetValue k v arr)) @ vs @ drop (Suc k + length vs) (Values (SetValue k v arr))"
    using Cons.prems by (intro Cons.IH) (simp add: SetValue_def)
  moreover have "take (Suc k) ((Values arr)[k := v]) = take k (Values arr) @ [v]"
    using Cons.prems by (simp add: take_Suc_conv_app_nth)
  ultimately show ?case by (simp add: SetValue_def)
qed

lemma fold_SetValue_more:
  "Name (fold (\<lambda>(i, v) a. SetValue i v a) ivs arr) = Name arr \<and>
   NumberOfComponents (fold (\<lambda>(i, v) a. SetValue i v a) ivs arr) = NumberOfComponents arr \<and>
   vtkFloatArray.more (fold (\<lambda>(i, v) a. SetValue i v a) ivs arr) = vtkFloatArray.more arr"
  by (induction ivs arbitrary: arr) (auto simp: SetValue_def)

lemma set_values_regionArray:
  "set_values vs (regionArray (length vs)) = \<lparr>Name = ''Region'', NumberOfComponents = 1, Values = vs\<rparr>"
proof -
  have "Values (set_values vs (regionArray (length vs))) = vs"
    unfolding set_values_def by (subst fold_SetValue_Values) (simp_all add: regionArray_def)
  moreover have "Name (set_values vs (regionArray (length vs))) = ''Region''"
    "NumberOfComponents (set_values vs (regionArray (length vs))) = 1"
    unfolding set_values_def by (simp_all add: fold_SetValue_more regionArray_def)
  ultimately show ?thesis by (cases "set_values vs (regionArray (length vs))") simp
qed

lemma length_set_values: "length (Values (set_values vs arr)) = length (Values arr)"
  unfolding set_values_def
  by (induction vs arbitrary: arr rule: rev_induct) (auto simp: enumerate_append_eq SetValue_def)

subsection \<open>The conversion in two halves\<close>

lemma gmsh2VTU_loop_Inr_iff:
  "gmsh2VTU_loop m = Inr s \<longleftrightarrow>
     (\<exists>nodeTags coords elemType types elemTags tagss elemNodeTags nodess ordered pts pgm cells rv.
        getNodes m = (nodeTags, coords) \<and>
        getElements m = (elemType # types, elemTags # tagss, elemNodeTags # nodess) \<and>
        orderedElemNodeTags (nodeTagToIndex nodeTags) elemNodeTags = Inr ordered \<and>
        vtk_points nodeTags coords = Inr pts \<and>
        physicalGroupMap m = Inr pgm \<and>
        cell_loop elemType elemTags ordered pgm [0..<length elemTags] ([], []) = Inr (cells, rv) \<and>
        s = (\<lparr>Points = pts, Cells = cells, CellData = []\<rparr>, regionArray (length elemTags), rv))"
  unfolding gmsh2VTU_loop_def Let_def
  by (cases "getNodes m"; cases "getElements m")
     (auto simp: py_then_Inr_iff py_index_0)

lemma gmsh2VTU_loop_shape:
  assumes "gmsh2VTU_loop m = Inr (grid, arr, rv)"
  shows "CellData grid = []" and "arr = regionArray (length rv)"
    and "\<exists>elemType types elemTags tagss nodes.
           getElements m = (elemType # types, elemTags # tagss, nodes) \<and>
           length rv = length elemTags \<and>
           length (Cells grid) = (if elemType = 3 \<or> elemType = 2 then length elemTags else 0)"
    and "vtk_points (fst (getNodes m)) (snd (getNodes m)) = Inr (Points grid)"
proof -
  from assms obtain nodeTags coords elemType types elemTags tagss elemNodeTags nodess
      ordered pts pgm cells where
    n: "getNodes m = (nodeTags, coords)" and
    e: "getElements m = (elemType # types, elemTags # tagss, elemNodeTags # nodess)" and
    p: "vtk_points nodeTags coords = Inr pts" and
    c: "cell_loop elemType elemTags ordered pgm [0..<length elemTags] ([], []) = Inr (cells, rv)" and
    s: "grid = \<lparr>Points = pts, Cells = cells, CellData = []\<rparr>" "arr = regionArray (length elemTags)"
    unfolding gmsh2VTU_loop_Inr_iff by auto
  have l: "length rv = length elemTags" using cell_loop_regionValues [OF c] by simp
  show "CellData grid = []" using s by simp
  show "arr = regionArray (length rv)" using s l by simp
  show "vtk_points (fst (getNodes m)) (snd (getNodes m)) = Inr (Points grid)"
    using n p s by simp
  show "\<exists>elemType types elemTags tagss nodes.
           getElements m = (elemType # types, elemTags # tagss, nodes) \<and>
           length rv = length elemTags \<and>
           length (Cells grid) = (if elemType = 3 \<or> elemType = 2 then length elemTags else 0)"
    using e l cell_loop_length_cells [OF c] s by auto
qed

lemma gmsh2VTU_after_loop:
  assumes "gmsh2VTU_loop m = Inr (grid, arr, rv)"
  shows "gmsh2VTU m =
     py_then (normalizedRegions rv) (\<lambda>normalized.
       Inr (grid\<lparr>CellData := [\<lparr>Name = ''Region'', NumberOfComponents = 1, Values = normalized\<rparr>]\<rparr>))"
proof (cases "normalizedRegions rv")
  case (Inl e)
  then show ?thesis by (simp add: gmsh2VTU_def assms py_then_def)
next
  case (Inr normalized)
  have "length normalized = length rv"
    using Inr by (auto simp: normalizedRegions_def split: sum.splits if_splits)
  then have "set_values normalized arr =
      \<lparr>Name = ''Region'', NumberOfComponents = 1, Values = normalized\<rparr>"
    using gmsh2VTU_loop_shape(2) [OF assms] set_values_regionArray [of normalized] by simp
  then show ?thesis
    using Inr gmsh2VTU_loop_shape(1) [OF assms] by (simp add: gmsh2VTU_def assms py_then_def)
qed

subsection \<open>Only block 0 of the elements is read\<close>

text \<open>
  The conversion reads \<open>all2DElements[k][0]\<close> for \<open>k = 0, 1, 2\<close> and nothing else of
  \<open>getElements(2)\<close>: the blocks of any further element type do not change its result.
\<close>

lemma entity_loop_getElements_update:
  "entity_loop (m\<lparr>getElements := x\<rparr>) dm tag ents d = entity_loop m dm tag ents d"
  by (induction ents arbitrary: d) (simp_all split: sum.splits prod.splits)

lemma group_loop_getElements_update:
  "group_loop (m\<lparr>getElements := x\<rparr>) gs d = group_loop m gs d"
proof (induction gs arbitrary: d)
  case Nil
  then show ?case by simp
next
  case (Cons g gs)
  obtain dm tag where "g = (dm, tag)" by (cases g)
  with Cons.IH show ?case
    by (simp add: entity_loop_getElements_update split: sum.splits)
qed

lemma gmsh2VTU_first_block_only:
  assumes "getElements m = (elemType # types, elemTags # tagss, elemNodeTags # nodess)"
  shows "gmsh2VTU (m\<lparr>getElements := (elemType # types', elemTags # tagss', elemNodeTags # nodess')\<rparr>)
           = gmsh2VTU m"
proof -
  have "gmsh2VTU_loop
          (m\<lparr>getElements := (elemType # types', elemTags # tagss', elemNodeTags # nodess')\<rparr>)
        = gmsh2VTU_loop m"
    by (simp add: gmsh2VTU_loop_def assms py_index_def physicalGroupMap_def
        group_loop_getElements_update split: prod.splits)
  then show ?thesis by (simp add: gmsh2VTU_def)
qed

subsection \<open>Cells and region values per element type\<close>

text \<open>
  For the element types 2 and 3 a returned grid has one region value per cell. For any
  other type the loop body adds no cell and still appends a region value.
\<close>

lemma supported_type_cells_match_regions:
  assumes "getElements m = (elemType # types, tagss, nodess)"
    and "elemType = 3 \<or> elemType = 2"
    and "gmsh2VTU m = Inr g"
  shows "\<exists>arr. CellData g = [arr] \<and> Name arr = ''Region'' \<and>
               length (Values arr) = length (Cells g)"
proof -
  from assms(3) obtain grid arr rv normalized where
    l: "gmsh2VTU_loop m = Inr (grid, arr, rv)" and
    n: "normalizedRegions rv = Inr normalized" and
    g: "g = grid\<lparr>CellData := CellData grid @ [set_values normalized arr]\<rparr>"
    by (auto simp: gmsh2VTU_def py_then_Inr_iff)
  from gmsh2VTU_loop_shape(3) [OF l] assms(1,2) have c: "length (Cells grid) = length rv"
    by auto
  have "length (Values (set_values normalized arr)) = length rv"
    using gmsh2VTU_loop_shape(2) [OF l] by (simp add: length_set_values regionArray_def)
  moreover have "Name (set_values normalized arr) = ''Region''"
    using gmsh2VTU_loop_shape(2) [OF l]
    by (simp add: set_values_def fold_SetValue_more regionArray_def)
  ultimately show ?thesis
    using g c gmsh2VTU_loop_shape(1) [OF l] by simp
qed

lemma unsupported_type_no_cells:
  assumes "getElements m = (elemType # types, elemTags # tagss, nodess)"
    and "elemType \<noteq> 3" and "elemType \<noteq> 2"
    and "gmsh2VTU m = Inr g"
  shows "Cells g = [] \<and> (\<exists>arr. CellData g = [arr] \<and> length (Values arr) = length elemTags)"
proof -
  from assms(4) obtain grid arr rv normalized where
    l: "gmsh2VTU_loop m = Inr (grid, arr, rv)" and
    n: "normalizedRegions rv = Inr normalized" and
    g: "g = grid\<lparr>CellData := CellData grid @ [set_values normalized arr]\<rparr>"
    by (auto simp: gmsh2VTU_def py_then_Inr_iff)
  from gmsh2VTU_loop_shape(3) [OF l] assms(1,2,3)
  have c: "length (Cells grid) = 0" "length rv = length elemTags"
    by auto
  have "length (Values (set_values normalized arr)) = length rv"
    using gmsh2VTU_loop_shape(2) [OF l] by (simp add: length_set_values regionArray_def)
  then show ?thesis
    using g c gmsh2VTU_loop_shape(1) [OF l] by simp
qed

section \<open>The claims\<close>

subsection \<open>Unsupported element types\<close>

text \<open>
  Claim C1 says that an element type outside triangle and quadrilateral makes the conversion
  fail with a reported error. The type dispatch of lines 43--56 has no \<open>else\<close> branch: on
  \<open>mesh_tri6\<close>, whose element type is 9, the conversion raises nothing and returns a grid
  with no cell and a \<open>Region\<close> array of one value.
\<close>

theorem unsupported_type_returns_grid:
  "gmsh2VTU mesh_tri6 =
     Inr \<lparr>Points = [(0, 0, 0), (1, 0, 0), (0, 1, 0), (1 / 2, 0, 0), (1 / 2, 1 / 2, 0), (0, 1 / 2, 0)],
          Cells = [],
          CellData = [\<lparr>Name = ''Region'', NumberOfComponents = 1, Values = [1]\<rparr>]\<rparr>"
  by code_simp

subsection \<open>Region array and cell count\<close>

text \<open>
  Claim C2 says that the \<open>Region\<close> array of a returned grid has as many values as the grid
  has cells. On \<open>mesh_two_tri6\<close> (element type 9) the returned grid has 0 cells and a
  \<open>Region\<close> array of 2 values: the array is sized by \<open>len(elemTags)\<close>, the cells are added
  only for the types 2 and 3.
\<close>

theorem region_array_without_cells:
  "map_sum id (\<lambda>g. (length (Cells g), map (\<lambda>a. (Name a, length (Values a))) (CellData g)))
     (gmsh2VTU mesh_two_tri6) = Inr (0, [(''Region'', 2)])"
  by code_simp

subsection \<open>Normalisation\<close>



subsection \<open>The example with one quadrilateral and one triangle\<close>

text \<open>
  Claim C4, as amended. On the mesh of the example the conversion reads block 0 of the
  elements only. It returns a grid with exactly one cell, the triangle when the triangle
  block is listed first and the quadrilateral when the quadrilateral block is, and the one
  normalised region value is 1. The physical-group map does hold 5 for the quadrilateral
  (element 1) and 2 for the triangle (element 2).
\<close>

theorem mixed_mesh_first_block_only:
  "gmsh2VTU mesh_quad_tri =
     Inr \<lparr>Points = [(0, 0, 0), (1, 0, 0), (1, 1, 0), (0, 1, 0), (1 / 2, - 1, 0)],
          Cells = [(VTK_TRIANGLE, [0, 1, 4])],
          CellData = [\<lparr>Name = ''Region'', NumberOfComponents = 1, Values = [1]\<rparr>]\<rparr> \<and>
   gmsh2VTU mesh_quad_tri_quad_first =
     Inr \<lparr>Points = [(0, 0, 0), (1, 0, 0), (1, 1, 0), (0, 1, 0), (1 / 2, - 1, 0)],
          Cells = [(VTK_QUAD, [0, 1, 2, 3])],
          CellData = [\<lparr>Name = ''Region'', NumberOfComponents = 1, Values = [1]\<rparr>]\<rparr> \<and>
   map_sum id (\<lambda>pgm. map pgm [1, 2]) (physicalGroupMap mesh_quad_tri) = Inr [Some 5, Some 2]"
  by code_simp

text \<open>
  Claim C4 as stated (two cells emitted, region values 0 and 1) fails: in either order of
  the blocks the returned grid does not have two cells.
\<close>

theorem mixed_mesh_not_two_cells:
  "\<not> (\<exists>g. gmsh2VTU mesh_quad_tri = Inr g \<and> length (Cells g) = 2) \<and>
   \<not> (\<exists>g. gmsh2VTU mesh_quad_tri_quad_first = Inr g \<and> length (Cells g) = 2)"
proof -
  have "map_sum id (\<lambda>g. length (Cells g)) (gmsh2VTU mesh_quad_tri) = Inr 1"
    by code_simp
  moreover have "map_sum id (\<lambda>g. length (Cells g)) (gmsh2VTU mesh_quad_tri_quad_first) = Inr 1"
    by code_simp
  ultimately show ?thesis by auto
qed

subsection \<open>A missing node\<close>

text \<open>
  Claim C5, as amended. When block 0 of the node tags of \<open>getElements(2)\<close>, the only element
  connectivity the conversion reads, holds a node tag that is not among the node tags of
  the mesh, the conversion ends with the \<open>KeyError\<close> of the dictionary lookup of line 15 for
  such a tag: no grid is returned, whatever the rest of the mesh.
\<close>

theorem missing_node_aborts:
  assumes "getNodes m = (nodeTags, coords)"
    and "getElements m = (elemType # types, elemTags # tagss, elemNodeTags # nodess)"
    and "\<exists>t\<in>set elemNodeTags. t \<notin> set nodeTags"
  shows "\<exists>t. t \<in> set elemNodeTags \<and> t \<notin> set nodeTags \<and> gmsh2VTU m = Inl (KeyError t)"
proof -
  have "\<exists>t\<in>set elemNodeTags. nodeTagToIndex nodeTags t = None"
    using assms(3) dom_nodeTagToIndex [of nodeTags] by (auto simp: domIff)
  from orderedElemNodeTags_missing [OF this] obtain t where
    t: "t \<in> set elemNodeTags" "nodeTagToIndex nodeTags t = None" and
    k: "orderedElemNodeTags (nodeTagToIndex nodeTags) elemNodeTags = Inl (KeyError t)"
    by blast
  have "gmsh2VTU_loop m = Inl (KeyError t)"
    by (simp add: gmsh2VTU_loop_def assms(1,2) py_index_def py_then_def k)
  then have "gmsh2VTU m = Inl (KeyError t)" by (simp add: gmsh2VTU_def py_then_def)
  moreover have "t \<notin> set nodeTags"
    using t(2) dom_nodeTagToIndex [of nodeTags] by (auto simp: domIff)
  ultimately show ?thesis using t(1) by blast
qed

theorem missing_node_aborts_witness:
  "getNodes mesh_missing_node = ([1, 2, 3], [0, 0, 0, 1, 0, 0, 0, 1, 0]) \<and>
   getElements mesh_missing_node = (2 # [], [1, 2] # [], [1, 2, 3, 2, 9, 3] # []) \<and>
   (\<exists>t\<in>set [1, 2, 3, 2, 9, 3 :: int]. t \<notin> set [1, 2, 3]) \<and>
   gmsh2VTU mesh_missing_node = Inl (KeyError 9)"
proof -
  have n: "getNodes mesh_missing_node = ([1, 2, 3], [0, 0, 0, 1, 0, 0, 0, 1, 0])"
    by (simp add: mesh_missing_node_def)
  have e: "getElements mesh_missing_node = (2 # [], [1, 2] # [], [1, 2, 3, 2, 9, 3] # [])"
    by (simp add: mesh_missing_node_def)
  have h: "\<exists>t\<in>set [1, 2, 3, 2, 9, 3 :: int]. t \<notin> set [1, 2, 3]" by simp
  from missing_node_aborts [OF n e h] obtain t where
    "t \<in> set [1, 2, 3, 2, 9, 3 :: int]" "t \<notin> set [1, 2, 3 :: int]"
    "gmsh2VTU mesh_missing_node = Inl (KeyError t)" by blast
  then have "gmsh2VTU mesh_missing_node = Inl (KeyError 9)" by auto
  with n e h show ?thesis by blast
qed

text \<open>
  Claim C5 as stated, for every element of the mesh, fails: on
  \<open>mesh_missing_node_later_block\<close> the quadrilateral of the second block refers to node 99,
  which is no node of the mesh, and the conversion returns a grid with the triangle alone.
\<close>

theorem missing_node_in_later_block_returns_grid:
  "getElements mesh_missing_node_later_block = ([2, 3], [[1], [2]], [[1, 2, 3], [1, 2, 3, 99]]) \<and>
   99 \<notin> set (fst (getNodes mesh_missing_node_later_block)) \<and>
   gmsh2VTU mesh_missing_node_later_block =
     Inr \<lparr>Points = [(0, 0, 0), (1, 0, 0), (0, 1, 0)],
          Cells = [(VTK_TRIANGLE, [0, 1, 2])],
          CellData = [\<lparr>Name = ''Region'', NumberOfComponents = 1, Values = [1]\<rparr>]\<rparr>"
  by code_simp

subsection \<open>All raw region values equal\<close>

text \<open>
  Claim C6. When the loop over the elements has ended with raw region values that are all
  equal (so that \<open>min(regionValues) == max(regionValues)\<close>), the conversion returns the grid
  with a \<open>Region\<close> array in which every value is 1.
\<close>

theorem degenerate_regions_normalize_to_one:
  assumes "gmsh2VTU_loop m = Inr (grid, arr, regionValues)"
    and "regionValues \<noteq> []"
    and "\<forall>r\<in>set regionValues. r = c"
  shows "py_min regionValues = py_max regionValues \<and>
     gmsh2VTU m = Inr (grid\<lparr>CellData :=
        [\<lparr>Name = ''Region'', NumberOfComponents = 1,
          Values = replicate (length regionValues) 1\<rparr>]\<rparr>)"
proof -
  from assms(2,3) have "set regionValues = {c}" by (cases regionValues) auto
  then have "Min (set regionValues) = Max (set regionValues)" by simp
  then show ?thesis
    using assms(2)
    by (simp add: gmsh2VTU_after_loop [OF assms(1)] normalizedRegions_nonempty py_then_def
        py_min_Min py_max_Max)
qed

theorem degenerate_regions_normalize_to_one_witness:
  "gmsh2VTU_loop mesh_one_group =
     Inr (\<lparr>Points = [(0, 0, 0), (1, 0, 0), (2, 0, 0), (0, 1, 0), (1, 1, 0), (2, 1, 0)],
           Cells = [(VTK_QUAD, [0, 1, 4, 3]), (VTK_QUAD, [1, 2, 5, 4])], CellData = []\<rparr>,
          \<lparr>Name = ''Region'', NumberOfComponents = 1, Values = [0, 0]\<rparr>, [4, 4]) \<and>
   set [4, 4 :: int] = {4} \<and>
   gmsh2VTU mesh_one_group =
     Inr \<lparr>Points = [(0, 0, 0), (1, 0, 0), (2, 0, 0), (0, 1, 0), (1, 1, 0), (2, 1, 0)],
          Cells = [(VTK_QUAD, [0, 1, 4, 3]), (VTK_QUAD, [1, 2, 5, 4])],
          CellData = [\<lparr>Name = ''Region'', NumberOfComponents = 1, Values = [1, 1]\<rparr>]\<rparr>"
proof -
  have l: "gmsh2VTU_loop mesh_one_group =
     Inr (\<lparr>Points = [(0, 0, 0), (1, 0, 0), (2, 0, 0), (0, 1, 0), (1, 1, 0), (2, 1, 0)],
           Cells = [(VTK_QUAD, [0, 1, 4, 3]), (VTK_QUAD, [1, 2, 5, 4])], CellData = []\<rparr>,
          \<lparr>Name = ''Region'', NumberOfComponents = 1, Values = [0, 0]\<rparr>, [4, 4])"
    by code_simp
  have ne: "[4, 4 :: int] \<noteq> []" by simp
  have eq: "\<forall>r\<in>set [4, 4 :: int]. r = 4" by simp
  from degenerate_regions_normalize_to_one [OF l ne eq] l show ?thesis
    by (simp add: numeral_2_eq_2)
qed

subsection \<open>Last write wins\<close>

text \<open>
  Claim C7, as amended. When an element \<open>E\<close> lies in block 0 of the element tags of an
  entity of the physical group \<open>G1\<close> and of an entity of the physical group \<open>G2\<close>, processed
  in that order, and in block 0 of no entity of a group processed after \<open>G2\<close>, the tag of
  \<open>E\<close> in \<open>physicalGroupMap\<close> is the tag of \<open>G2\<close>, whatever the tag of \<open>G1\<close> and whatever the
  groups before and between them assign; the raw region value read for \<open>E\<close> is that tag.
\<close>

theorem last_write_wins:
  assumes "physicalGroupMap m = Inr pgm"
    and "getPhysicalGroups m = pre @ G1 # mid @ G2 # post"
    and "E \<in> set (group_block0_elements m G1)"
    and "E \<in> set (group_block0_elements m G2)"
    and "\<forall>G\<in>set post. E \<notin> set (group_block0_elements m G)"
  shows "pgm E = Some (snd G2) \<and> region_of pgm E = snd G2"
proof -
  from assms(1,2) have "group_loop m ((pre @ G1 # mid) @ G2 # post) Map.empty = Inr pgm"
    by (simp add: physicalGroupMap_def)
  from group_loop_last_owner [OF this assms(4) assms(5)] show ?thesis
    by (simp add: region_of_def)
qed

theorem last_write_wins_witness:
  "\<exists>pgm. physicalGroupMap mesh_overlap = Inr pgm \<and>
     getPhysicalGroups mesh_overlap = [] @ (2, 5) # [] @ (2, 2) # [] \<and>
     7 \<in> set (group_block0_elements mesh_overlap (2, 5)) \<and>
     7 \<in> set (group_block0_elements mesh_overlap (2, 2)) \<and>
     pgm 7 = Some 2 \<and> region_of pgm 7 = 2"
proof -
  obtain pgm where p: "physicalGroupMap mesh_overlap = Inr pgm"
    by (simp add: physicalGroupMap_def mesh_overlap_def py_index_def)
  have g: "getPhysicalGroups mesh_overlap = [] @ (2, 5) # [] @ (2, 2) # []"
    by (simp add: mesh_overlap_def)
  have o1: "7 \<in> set (group_block0_elements mesh_overlap (2, 5))"
    by (simp add: group_block0_elements_def entity_block0_elements_def mesh_overlap_def)
  have o2: "7 \<in> set (group_block0_elements mesh_overlap (2, 2))"
    by (simp add: group_block0_elements_def entity_block0_elements_def mesh_overlap_def)
  have n: "\<forall>G\<in>set []. 7 \<notin> set (group_block0_elements mesh_overlap G)" by simp
  from last_write_wins [OF p g o1 o2 n] p g o1 o2 show ?thesis by simp
qed

text \<open>
  Claim C7 as stated, for every element owned by both groups, fails: in
  \<open>mesh_overlap_mixed\<close> the quadrilateral (element 1) is owned by the groups 5 and 2, through
  the second block of their entity, and \<open>physicalGroupMap\<close> holds no tag for it, so its raw
  region value is \<open>-1\<close> and not the tag 2 of the later group.
\<close>

theorem later_block_element_not_tagged:
  "getPhysicalGroups mesh_overlap_mixed = [(2, 5), (2, 2)] \<and>
   1 \<in> set (group_elements mesh_overlap_mixed (2, 5)) \<and>
   1 \<in> set (group_elements mesh_overlap_mixed (2, 2)) \<and>
   map_sum id (\<lambda>pgm. (pgm 1, region_of pgm 1, pgm 2)) (physicalGroupMap mesh_overlap_mixed)
     = Inr (None, - 1, Some 2)"
  by code_simp

subsection \<open>The node index is a bijection\<close>

text \<open>
  Claim C8. For node tags without duplicates, \<open>nodeTagToIndex\<close> is defined exactly on the
  node tags, sends the \<open>i\<close>-th tag to \<open>i\<close>, and is a bijection between the tags and the
  positions below their number; the point array of a returned grid has one point per node,
  and its \<open>i\<close>-th point is the coordinate triple of the \<open>i\<close>-th node.
\<close>

theorem node_index_bijective:
  assumes "getNodes m = (nodeTags, coords)" and "distinct nodeTags"
  shows "dom (nodeTagToIndex nodeTags) = set nodeTags \<and>
     (\<forall>i<length nodeTags. nodeTagToIndex nodeTags (nodeTags ! i) = Some i) \<and>
     bij_betw (\<lambda>t. the (nodeTagToIndex nodeTags t)) (set nodeTags) {0..<length nodeTags} \<and>
     (\<forall>g. gmsh2VTU m = Inr g \<longrightarrow>
        length (Points g) = length nodeTags \<and>
        (\<forall>i<length nodeTags.
           Points g ! i = (coords ! (3 * i), coords ! (3 * i + 1), coords ! (3 * i + 2))))"
proof -
  have n: "nodeTagToIndex nodeTags (nodeTags ! i) = Some i" if "i < length nodeTags" for i
    using nodeTagToIndex_nth [OF assms(2) that] .
  have b: "bij_betw (\<lambda>t. the (nodeTagToIndex nodeTags t)) (set nodeTags) {0..<length nodeTags}"
  proof (rule bij_betw_byWitness [where f' = "\<lambda>i. nodeTags ! i"])
    show "\<forall>a\<in>set nodeTags. nodeTags ! the (nodeTagToIndex nodeTags a) = a"
      using n by (auto simp: in_set_conv_nth)
    show "\<forall>a'\<in>{0..<length nodeTags}. the (nodeTagToIndex nodeTags (nodeTags ! a')) = a'"
      using n by simp
    show "(\<lambda>t. the (nodeTagToIndex nodeTags t)) ` set nodeTags \<subseteq> {0..<length nodeTags}"
      using n by (auto simp: in_set_conv_nth)
    show "(!) nodeTags ` {0..<length nodeTags} \<subseteq> set nodeTags" by auto
  qed
  have p: "length (Points g) = length nodeTags \<and>
        (\<forall>i<length nodeTags.
           Points g ! i = (coords ! (3 * i), coords ! (3 * i + 1), coords ! (3 * i + 2)))"
    if "gmsh2VTU m = Inr g" for g
  proof -
    from that obtain grid arr rv normalized where
      l: "gmsh2VTU_loop m = Inr (grid, arr, rv)" and
      g: "g = grid\<lparr>CellData := CellData grid @ [set_values normalized arr]\<rparr>"
      by (auto simp: gmsh2VTU_def py_then_Inr_iff)
    from gmsh2VTU_loop_shape(4) [OF l] assms(1) g
    have "vtk_points nodeTags coords = Inr (Points g)" by simp
    from vtk_points_Inr [OF this] show ?thesis by blast
  qed
  from n b p show ?thesis
    unfolding dom_nodeTagToIndex by blast
qed

theorem node_index_bijective_witness:
  "getNodes mesh_sparse_ids = ([30, 10, 20], [0, 0, 0, 1, 0, 0, 0, 1, 0]) \<and>
   distinct [30, 10, 20 :: int] \<and>
   map (nodeTagToIndex [30, 10, 20]) [30, 10, 20] = [Some 0, Some 1, Some 2] \<and>
   dom (nodeTagToIndex [30, 10, 20]) = {10, 20, 30} \<and>
   bij_betw (\<lambda>t. the (nodeTagToIndex [30, 10, 20] t)) {10, 20, 30} {0..<3} \<and>
   gmsh2VTU mesh_sparse_ids =
     Inr \<lparr>Points = [(0, 0, 0), (1, 0, 0), (0, 1, 0)],
          Cells = [(VTK_TRIANGLE, [1, 2, 0])],
          CellData = [\<lparr>Name = ''Region'', NumberOfComponents = 1, Values = [1]\<rparr>]\<rparr>"
proof -
  have n: "getNodes mesh_sparse_ids = ([30, 10, 20], [0, 0, 0, 1, 0, 0, 0, 1, 0])"
    by (simp add: mesh_sparse_ids_def)
  have d: "distinct [30, 10, 20 :: int]" by simp
  have g: "gmsh2VTU mesh_sparse_ids =
     Inr \<lparr>Points = [(0, 0, 0), (1, 0, 0), (0, 1, 0)],
          Cells = [(VTK_TRIANGLE, [1, 2, 0])],
          CellData = [\<lparr>Name = ''Region'', NumberOfComponents = 1, Values = [1]\<rparr>]\<rparr>"
    by code_simp
  have s: "set [30, 10, 20 :: int] = {10, 20, 30}" by auto
  from node_index_bijective [OF n d]
  have "dom (nodeTagToIndex [30, 10, 20]) = set [30, 10, 20]"
    and "\<forall>i<length [30, 10, 20 :: int]. nodeTagToIndex [30, 10, 20] ([30, 10, 20] ! i) = Some i"
    and "bij_betw (\<lambda>t. the (nodeTagToIndex [30, 10, 20] t)) (set [30, 10, 20]) {0..<length [30, 10, 20 :: int]}"
    by blast+
  with n d g s show ?thesis by (simp add: numeral_3_eq_3 less_Suc_eq)
qed

subsection \<open>No physical groups\<close>

text \<open>
  Claim C9. For a mesh without physical groups, when the loop over the elements has ended,
  every raw region value is \<open>-1\<close>, one per element; and if there is an element, the
  conversion returns the grid with a \<open>Region\<close> array in which every value is 1.
\<close>

theorem no_physical_groups_all_unassigned:
  assumes "getPhysicalGroups m = []"
    and "getElements m = (elementTypes, elemTags # tagss, elementNodeTags)"
    and "gmsh2VTU_loop m = Inr (grid, arr, regionValues)"
  shows "regionValues = replicate (length elemTags) (- 1) \<and>
     (elemTags \<noteq> [] \<longrightarrow>
        gmsh2VTU m = Inr (grid\<lparr>CellData :=
          [\<lparr>Name = ''Region'', NumberOfComponents = 1,
            Values = replicate (length elemTags) 1\<rparr>]\<rparr>))"
proof -
  have p: "physicalGroupMap m = Inr Map.empty"
    by (simp add: physicalGroupMap_def assms(1))
  from assms(3) obtain elemType ordered cells where
    "cell_loop elemType elemTags ordered Map.empty [0..<length elemTags] ([], []) = Inr (cells, regionValues)"
    unfolding gmsh2VTU_loop_Inr_iff using assms(2) p by auto
  from cell_loop_regionValues [OF this]
  have "regionValues = map (region_of Map.empty) elemTags" .
  moreover have "region_of Map.empty = (\<lambda>elemTag. - 1)"
    by (simp add: fun_eq_iff region_of_def)
  ultimately have r: "regionValues = replicate (length elemTags) (- 1)"
    by (simp add: map_replicate_const)
  have "gmsh2VTU m = Inr (grid\<lparr>CellData :=
          [\<lparr>Name = ''Region'', NumberOfComponents = 1,
            Values = replicate (length elemTags) 1\<rparr>]\<rparr>)" if "elemTags \<noteq> []"
  proof -
    have "regionValues \<noteq> []" using r that by auto
    moreover have "set regionValues = {- 1}" by (subst r) (simp add: that)
    ultimately show ?thesis
      using r by (simp add: gmsh2VTU_after_loop [OF assms(3)] normalizedRegions_nonempty py_then_def)
  qed
  with r show ?thesis by blast
qed

theorem no_physical_groups_all_unassigned_witness:
  "getPhysicalGroups mesh_no_groups = [] \<and>
   getElements mesh_no_groups = ([2], [1, 2] # [], [[1, 2, 3, 1, 3, 4]]) \<and>
   gmsh2VTU_loop mesh_no_groups =
     Inr (\<lparr>Points = [(0, 0, 0), (1, 0, 0), (1, 1, 0), (0, 1, 0)],
           Cells = [(VTK_TRIANGLE, [0, 1, 2]), (VTK_TRIANGLE, [0, 2, 3])], CellData = []\<rparr>,
          \<lparr>Name = ''Region'', NumberOfComponents = 1, Values = [0, 0]\<rparr>, [- 1, - 1]) \<and>
   gmsh2VTU mesh_no_groups =
     Inr \<lparr>Points = [(0, 0, 0), (1, 0, 0), (1, 1, 0), (0, 1, 0)],
          Cells = [(VTK_TRIANGLE, [0, 1, 2]), (VTK_TRIANGLE, [0, 2, 3])],
          CellData = [\<lparr>Name = ''Region'', NumberOfComponents = 1, Values = [1, 1]\<rparr>]\<rparr>"
proof -
  have p: "getPhysicalGroups mesh_no_groups = []" by (simp add: mesh_no_groups_def)
  have e: "getElements mesh_no_groups = ([2], [1, 2] # [], [[1, 2, 3, 1, 3, 4]])"
    by (simp add: mesh_no_groups_def)
  have l: "gmsh2VTU_loop mesh_no_groups =
     Inr (\<lparr>Points = [(0, 0, 0), (1, 0, 0), (1, 1, 0), (0, 1, 0)],
           Cells = [(VTK_TRIANGLE, [0, 1, 2]), (VTK_TRIANGLE, [0, 2, 3])], CellData = []\<rparr>,
          \<lparr>Name = ''Region'', NumberOfComponents = 1, Values = [0, 0]\<rparr>, [- 1, - 1])"
    by code_simp
  from no_physical_groups_all_unassigned [OF p e l] p e l show ?thesis
    by (simp add: numeral_2_eq_2)
qed

subsection \<open>An empty element block\<close>

text \<open>
  Claim C10. When block 0 of the element tags is empty, the conversion raises: it never
  returns a grid, and when everything before the normalisation has gone through, the
  exception is the \<open>ValueError\<close> of \<open>min\<close> on the empty list of region values.
\<close>

theorem empty_element_block_raises:
  assumes "getElements m = (elementTypes, [] # tagss, elementNodeTags)"
  shows "(\<exists>e. gmsh2VTU m = Inl e) \<and>
         (\<forall>s. gmsh2VTU_loop m = Inr s \<longrightarrow> gmsh2VTU m = Inl ValueError)"
proof -
  have v: "gmsh2VTU m = Inl ValueError" if "gmsh2VTU_loop m = Inr s" for s
  proof -
    obtain grid arr rv where s: "s = (grid, arr, rv)" by (cases s)
    from that [unfolded s gmsh2VTU_loop_Inr_iff] assms obtain elemType ordered pgm cells where
      "cell_loop elemType [] ordered pgm [0..<length ([]::int list)] ([], []) = Inr (cells, rv)"
      by auto
    then have "rv = []" by simp
    then show ?thesis
      using gmsh2VTU_after_loop [OF that [unfolded s]]
      by (simp add: normalizedRegions_empty py_then_def)
  qed
  have "\<exists>e. gmsh2VTU m = Inl e"
  proof (cases "gmsh2VTU_loop m")
    case (Inl e)
    then show ?thesis by (simp add: gmsh2VTU_def py_then_def)
  next
    case (Inr s)
    from v [OF this] show ?thesis by blast
  qed
  with v show ?thesis by blast
qed

theorem empty_element_block_raises_witness:
  "getElements mesh_empty_block = ([2], [] # [], [[]]) \<and>
   gmsh2VTU_loop mesh_empty_block =
     Inr (\<lparr>Points = [(0, 0, 0), (1, 0, 0), (0, 1, 0)], Cells = [], CellData = []\<rparr>,
          \<lparr>Name = ''Region'', NumberOfComponents = 1, Values = []\<rparr>, []) \<and>
   gmsh2VTU mesh_empty_block = Inl ValueError"
proof -
  have e: "getElements mesh_empty_block = ([2], [] # [], [[]])"
    by (simp add: mesh_empty_block_def)
  have l: "gmsh2VTU_loop mesh_empty_block =
     Inr (\<lparr>Points = [(0, 0, 0), (1, 0, 0), (0, 1, 0)], Cells = [], CellData = []\<rparr>,
          \<lparr>Name = ''Region'', NumberOfComponents = 1, Values = []\<rparr>, [])"
    by code_simp
  from empty_element_block_raises [OF e] l e show ?thesis by simp
qed

end
